theory Spec2Isabelle
  imports Main
begin

section \<open>StyleWeave: the page script \<^verbatim>\<open>js/script.js\<close>\<close>

text \<open>
  The script wires five small classes to the page: \<^verbatim>\<open>ThemeManager\<close>,
  \<^verbatim>\<open>FavoriteManager\<close>, \<^verbatim>\<open>ProductInteractions\<close>, \<^verbatim>\<open>SmoothScroll\<close> and
  \<^verbatim>\<open>LazyLoader\<close>. Every method is embedded as a function on an explicit state: the
  browser's \<^verbatim>\<open>localStorage\<close>, a store of DOM elements addressed by node, the fields
  of the class instances, and the browser's bookkeeping (listeners, observer targets,
  pending timeouts). A method that can throw returns an outcome that keeps the state
  reached at the throw, since the mutations made before a JavaScript exception stay.
  The \<^verbatim>\<open>style\<close> element with the two keyframe animations, which the script appends
  to the head when it is evaluated, is not represented.
\<close>

subsection \<open>Data model\<close>

type_synonym node = nat

text \<open>The properties of a DOM element that the script reads or writes.\<close>

record element =
  classList :: "string set"
  data_theme :: "string option"
  href :: string
  textContent :: string
  style_transform :: string
  style_animation :: string
  style_position :: string
  style_overflow :: string
  ripples :: nat

text \<open>
  What \<^verbatim>\<open>document.querySelector\<close> answers for a selector text: it throws a
  \<^verbatim>\<open>SyntaxError\<close> for a text that is no selector, and returns \<^verbatim>\<open>null\<close> or the first
  matching element otherwise.
\<close>

datatype query_result = InvalidSelector | NoElement | Found node

text \<open>
  The page as the script's queries see it. The script adds only the classes
  \<^verbatim>\<open>active\<close>, \<^verbatim>\<open>loaded\<close> and \<^verbatim>\<open>ripple\<close> and the attribute \<^verbatim>\<open>data-theme\<close>, so the
  answers to its class and id queries are fixed for the lifetime of the page. Nothing
  keeps two queries from returning the same node.
\<close>

record page =
  documentElement :: node
  themeToggle :: "node option"
  favorite_btns :: "node list"
  product_cards :: "node list"
  product_name :: "node \<Rightarrow> node option"
  product_image :: "node \<Rightarrow> node option"
  anchors :: "node list"
  product_images :: "node list"
  querySelector :: "string \<Rightarrow> query_result"
  has_IntersectionObserver :: bool

datatype timer = ResetTransform node | ResetAnimation node | RemoveRipple node

datatype log_entry = ProductClicked string | Initialized

record world =
  localStorage :: "string \<rightharpoonup> string"
  dom :: "node \<Rightarrow> element"
  currentTheme :: string
  favorites :: "nat list"
  theme_listener :: bool
  favorite_listeners :: bool
  card_listeners :: bool
  anchor_listeners :: bool
  observed :: "node set"
  timeouts :: "(nat \<times> timer) list"
  scrolled :: "(node \<times> string \<times> string) list"
  location_hash :: string
  console :: "log_entry list"

datatype js_error = TypeError | SyntaxError

datatype outcome = Returned world | Threw js_error world

fun world_of :: "outcome \<Rightarrow> world" where
  "world_of (Returned w) = w"
| "world_of (Threw e w) = w"

fun threw :: "outcome \<Rightarrow> bool" where
  "threw (Returned w) = False"
| "threw (Threw e w) = True"

text \<open>Sequencing of statements: the rest runs only when nothing was thrown.\<close>

fun and_then :: "outcome \<Rightarrow> (world \<Rightarrow> outcome) \<Rightarrow> outcome" where
  "and_then (Returned w) f = f w"
| "and_then (Threw e w) f = Threw e w"

definition modify :: "node \<Rightarrow> (element \<Rightarrow> element) \<Rightarrow> world \<Rightarrow> world" where
  "modify n f w = w\<lparr>dom := (dom w)(n := f (dom w n))\<rparr>"

definition setTimeout :: "timer \<Rightarrow> nat \<Rightarrow> world \<Rightarrow> world" where
  "setTimeout t ms w = w\<lparr>timeouts := timeouts w @ [(ms, t)]\<rparr>"

subsection \<open>ThemeManager\<close>

definition theme_key :: string where
  "theme_key = ''styleweave-theme''"

definition getStoredTheme :: "world \<Rightarrow> string option" where
  "getStoredTheme w = localStorage w theme_key"

definition setStoredTheme :: "string \<Rightarrow> world \<Rightarrow> world" where
  "setStoredTheme theme w = w\<lparr>localStorage := (localStorage w)(theme_key \<mapsto> theme)\<rparr>"

definition applyTheme :: "page \<Rightarrow> string \<Rightarrow> world \<Rightarrow> world" where
  "applyTheme p theme w =
     setStoredTheme theme
       ((modify (documentElement p) (\<lambda>e. e\<lparr>data_theme := Some theme\<rparr>) w)
          \<lparr>currentTheme := theme\<rparr>)"

text \<open>
  \<^verbatim>\<open>toggleTheme\<close> dereferences \<^verbatim>\<open>this.themeToggle\<close> after the theme is applied; on a
  page without the toggle button that is a \<^verbatim>\<open>TypeError\<close>.
\<close>

definition toggleTheme :: "page \<Rightarrow> world \<Rightarrow> outcome" where
  "toggleTheme p w =
     (let newTheme = (if currentTheme w = ''light'' then ''dark'' else ''light'');
          w1 = applyTheme p newTheme w
      in case themeToggle p of
           None \<Rightarrow> Threw TypeError w1
         | Some t \<Rightarrow>
             Returned (setTimeout (ResetTransform t) 300
               (modify t (\<lambda>e. e\<lparr>style_transform := ''rotate(360deg)''\<rparr>) w1)))"

text \<open>
  \<^verbatim>\<open>this.getStoredTheme() || 'light'\<close>: \<^verbatim>\<open>null\<close> and the empty string are both falsy.
\<close>

definition stored_or_light :: "string option \<Rightarrow> string" where
  "stored_or_light s = (case s of None \<Rightarrow> ''light'' | Some t \<Rightarrow> if t = [] then ''light'' else t)"

definition ThemeManager_init :: "page \<Rightarrow> world \<Rightarrow> world" where
  "ThemeManager_init p w =
     (let w1 = applyTheme p (currentTheme w) w
      in if themeToggle p \<noteq> None then w1\<lparr>theme_listener := True\<rparr> else w1)"

definition ThemeManager :: "page \<Rightarrow> world \<Rightarrow> world" where
  "ThemeManager p w =
     ThemeManager_init p (w\<lparr>currentTheme := stored_or_light (getStoredTheme w)\<rparr>)"

subsection \<open>The JSON text of an array of indices\<close>

text \<open>
  \<^verbatim>\<open>JSON.stringify\<close> on an array of indices: the decimal numerals, separated by commas,
  in brackets. The indices come from \<^verbatim>\<open>forEach\<close> over a node list, so they are
  natural numbers far below the range where JavaScript numbers stop printing as plain
  decimals.
\<close>

definition digit_char :: "nat \<Rightarrow> char" where
  "digit_char d = ''0123456789'' ! d"

function show_nat :: "nat \<Rightarrow> string" where
  "show_nat n = (if n < 10 then [digit_char n] else show_nat (n div 10) @ [digit_char (n mod 10)])"
  by pat_completeness auto
termination
  by (relation "measure (\<lambda>n. n)") auto

declare show_nat.simps [simp del]

fun join_commas :: "string list \<Rightarrow> string" where
  "join_commas [] = []"
| "join_commas [t] = t"
| "join_commas (t # u # ts) = t @ CHR '','' # join_commas (u # ts)"

definition JSON_stringify :: "nat list \<Rightarrow> string" where
  "JSON_stringify xs = CHR ''['' # join_commas (map show_nat xs) @ '']''"

text \<open>
  \<^verbatim>\<open>JSON.parse\<close>, on the texts the script itself stores: a bracketed, comma-separated
  list of decimal numerals without sign, fraction, exponent, leading zero or white
  space. Every other text is rejected here with \<^verbatim>\<open>SyntaxError\<close>; the browser accepts
  more (other JSON values, white space), none of which the script ever writes.
\<close>

definition is_digit :: "char \<Rightarrow> bool" where
  "is_digit c = (c \<in> set ''0123456789'')"

definition digit_value :: "char \<Rightarrow> nat" where
  "digit_value c = of_char c - 48"

definition read_nat :: "string \<Rightarrow> nat" where
  "read_nat t = foldl (\<lambda>n c. 10 * n + digit_value c) 0 t"

definition number_token :: "string \<Rightarrow> bool" where
  "number_token t =
     (if t = [] then False
      else if hd t = CHR ''0'' then t = ''0''
      else list_all is_digit t)"

fun split_commas :: "string \<Rightarrow> string list" where
  "split_commas [] = [[]]"
| "split_commas (c # cs) =
     (if c = CHR '','' then [] # split_commas cs
      else (c # hd (split_commas cs)) # tl (split_commas cs))"

definition JSON_parse :: "string \<Rightarrow> js_error + nat list" where
  "JSON_parse s =
     (case s of
        [] \<Rightarrow> Inl SyntaxError
      | c # rest \<Rightarrow>
          if c = CHR ''['' \<and> rest \<noteq> [] \<and> last rest = CHR '']''
          then if butlast rest = [] then Inr []
               else if list_all number_token (split_commas (butlast rest))
                    then Inr (map read_nat (split_commas (butlast rest)))
                    else Inl SyntaxError
          else Inl SyntaxError)"

subsection \<open>FavoriteManager\<close>

definition favorites_key :: string where
  "favorites_key = ''styleweave-favorites''"

text \<open>\<^verbatim>\<open>stored ? JSON.parse(stored) : []\<close>: \<^verbatim>\<open>null\<close> and the empty string are falsy.\<close>

definition getStoredFavorites :: "world \<Rightarrow> js_error + nat list" where
  "getStoredFavorites w =
     (case localStorage w favorites_key of
        None \<Rightarrow> Inr []
      | Some stored \<Rightarrow> if stored = [] then Inr [] else JSON_parse stored)"

definition setStoredFavorites :: "world \<Rightarrow> world" where
  "setStoredFavorites w =
     w\<lparr>localStorage := (localStorage w)(favorites_key \<mapsto> JSON_stringify (favorites w))\<rparr>"

definition animateButton :: "node \<Rightarrow> string \<Rightarrow> world \<Rightarrow> world" where
  "animateButton button action w =
     (if action = ''add''
      then setTimeout (ResetAnimation button) 400
             (modify button (\<lambda>e. e\<lparr>style_animation := ''heartBurst 0.4s ease-out''\<rparr>) w)
      else w)"

definition toggleFavorite :: "node \<Rightarrow> nat \<Rightarrow> world \<Rightarrow> world" where
  "toggleFavorite button productIndex w =
     (let isActive = (''active'' \<in> classList (dom w button))
      in setStoredFavorites
           (if isActive
            then animateButton button ''remove''
                   ((modify button (\<lambda>e. e\<lparr>classList := classList e - {''active''}\<rparr>) w)
                      \<lparr>favorites := filter (\<lambda>id. id \<noteq> productIndex) (favorites w)\<rparr>)
            else animateButton button ''add''
                   ((modify button (\<lambda>e. e\<lparr>classList := insert ''active'' (classList e)\<rparr>) w)
                      \<lparr>favorites := favorites w @ [productIndex]\<rparr>)))"

text \<open>
  The \<^verbatim>\<open>forEach((btn, index) => ...)\<close> of \<^verbatim>\<open>init\<close>: the buttons in document order,
  the index counted from the start.
\<close>

fun restore_buttons :: "node list \<Rightarrow> nat \<Rightarrow> world \<Rightarrow> world" where
  "restore_buttons [] index w = w"
| "restore_buttons (btn # btns) index w =
     restore_buttons btns (Suc index)
       ((if index \<in> set (favorites w)
         then modify btn (\<lambda>e. e\<lparr>classList := insert ''active'' (classList e)\<rparr>) w
         else w)\<lparr>favorite_listeners := True\<rparr>)"

definition FavoriteManager_init :: "page \<Rightarrow> world \<Rightarrow> world" where
  "FavoriteManager_init p w = restore_buttons (favorite_btns p) 0 w"

definition FavoriteManager :: "page \<Rightarrow> world \<Rightarrow> outcome" where
  "FavoriteManager p w =
     (case getStoredFavorites w of
        Inl e \<Rightarrow> Threw e w
      | Inr stored \<Rightarrow> Returned (FavoriteManager_init p (w\<lparr>favorites := stored\<rparr>)))"

subsection \<open>ProductInteractions\<close>

definition ProductInteractions :: "page \<Rightarrow> world \<Rightarrow> world" where
  "ProductInteractions p w =
     (if product_cards p = [] then w else w\<lparr>card_listeners := True\<rparr>)"

definition onCardHover :: "page \<Rightarrow> node \<Rightarrow> bool \<Rightarrow> world \<Rightarrow> world" where
  "onCardHover p crd isHovering w =
     (case product_image p crd of None \<Rightarrow> w | Some img \<Rightarrow> w)"

text \<open>
  The ripple is a fresh \<^verbatim>\<open>span\<close> appended to the card; the card counts its ripples.
  The span's inline style is constant but for its size, which is read from the layout
  and is not represented.
\<close>

definition createRipple :: "node \<Rightarrow> world \<Rightarrow> world" where
  "createRipple crd w =
     setTimeout (RemoveRipple crd) 600
       (modify crd (\<lambda>e. e\<lparr>style_position := ''relative'', style_overflow := ''hidden'',
                            ripples := Suc (ripples e)\<rparr>) w)"

text \<open>
  \<^verbatim>\<open>card.querySelector('.product-name').textContent\<close>: the query result is
  dereferenced as it comes, so a card without a name element gives a \<^verbatim>\<open>TypeError\<close>.
\<close>

definition onCardClick :: "page \<Rightarrow> node \<Rightarrow> world \<Rightarrow> outcome" where
  "onCardClick p crd w =
     (case product_name p crd of
        None \<Rightarrow> Threw TypeError w
      | Some n \<Rightarrow>
          Returned (createRipple crd
            (w\<lparr>console := console w @ [ProductClicked (textContent (dom w n))]\<rparr>)))"

text \<open>
  The card's click listener; \<open>in_favorite\<close> says whether
  \<^verbatim>\<open>e.target.closest('.favorite-btn')\<close> found a button.
\<close>

definition card_click :: "page \<Rightarrow> node \<Rightarrow> bool \<Rightarrow> world \<Rightarrow> outcome" where
  "card_click p crd in_favorite w =
     (if \<not> in_favorite then onCardClick p crd w else Returned w)"

subsection \<open>SmoothScroll\<close>

definition SmoothScroll :: "page \<Rightarrow> world \<Rightarrow> world" where
  "SmoothScroll p w = (if anchors p = [] then w else w\<lparr>anchor_listeners := True\<rparr>)"

text \<open>
  The anchor's click listener. The first component is the event's
  \<^verbatim>\<open>defaultPrevented\<close> flag when the listener is left.
\<close>

definition anchor_click :: "page \<Rightarrow> node \<Rightarrow> world \<Rightarrow> bool \<times> outcome" where
  "anchor_click p anchor w =
     (True,
      case querySelector p (href (dom w anchor)) of
        InvalidSelector \<Rightarrow> Threw SyntaxError w
      | NoElement \<Rightarrow> Returned w
      | Found target \<Rightarrow> Returned (w\<lparr>scrolled := scrolled w @ [(target, ''smooth'', ''start'')]\<rparr>))"

subsection \<open>LazyLoader\<close>

definition observer_callback :: "(node \<times> bool) list \<Rightarrow> world \<Rightarrow> world" where
  "observer_callback entries w =
     fold (\<lambda>(img, isIntersecting) w.
             if isIntersecting
             then (modify img (\<lambda>e. e\<lparr>classList := insert ''loaded'' (classList e)\<rparr>) w)
                    \<lparr>observed := observed w - {img}\<rparr>
             else w)
          entries w"

definition LazyLoader :: "page \<Rightarrow> world \<Rightarrow> world" where
  "LazyLoader p w =
     (if has_IntersectionObserver p
      then fold (\<lambda>img w. w\<lparr>observed := insert img (observed w)\<rparr>) (product_images p)
             (w\<lparr>observed := {}\<rparr>)
      else w)"

subsection \<open>Page load, events and timeouts\<close>

definition DOMContentLoaded :: "page \<Rightarrow> world \<Rightarrow> outcome" where
  "DOMContentLoaded p w =
     and_then (FavoriteManager p (ThemeManager p w))
       (\<lambda>w. Returned ((LazyLoader p (SmoothScroll p (ProductInteractions p w)))
                         \<lparr>console := console w @ [Initialized]\<rparr>))"

fun fire :: "timer \<Rightarrow> world \<Rightarrow> world" where
  "fire (ResetTransform t) w = modify t (\<lambda>e. e\<lparr>style_transform := []\<rparr>) w"
| "fire (ResetAnimation b) w = modify b (\<lambda>e. e\<lparr>style_animation := []\<rparr>) w"
| "fire (RemoveRipple c) w = modify c (\<lambda>e. e\<lparr>ripples := ripples e - 1\<rparr>) w"

datatype event =
    ThemeToggleClick
  | FavoriteClick nat
  | CardMouseEnter nat
  | CardMouseLeave nat
  | CardClick nat bool
  | AnchorClick nat
  | Intersection "(node \<times> bool) list"
  | TimerFires nat

text \<open>
  Whether the browser has a callback of the script to run for an event: a listener was
  added to the element, the observer watches every target it reports, the timeout is
  pending.
\<close>

fun delivered :: "page \<Rightarrow> event \<Rightarrow> world \<Rightarrow> bool" where
  "delivered p ThemeToggleClick w = theme_listener w"
| "delivered p (FavoriteClick i) w = (favorite_listeners w \<and> i < length (favorite_btns p))"
| "delivered p (CardMouseEnter c) w = (card_listeners w \<and> c < length (product_cards p))"
| "delivered p (CardMouseLeave c) w = (card_listeners w \<and> c < length (product_cards p))"
| "delivered p (CardClick c in_favorite) w = (card_listeners w \<and> c < length (product_cards p))"
| "delivered p (AnchorClick a) w = (anchor_listeners w \<and> a < length (anchors p))"
| "delivered p (Intersection entries) w = list_all (\<lambda>(img, isIntersecting). img \<in> observed w) entries"
| "delivered p (TimerFires k) w = (k < length (timeouts w))"

text \<open>
  The callback that runs. For a click on an anchor the browser then follows the link
  to the fragment, its default action, unless the listener prevented it.
\<close>

definition follow_link :: "node \<Rightarrow> world \<Rightarrow> world" where
  "follow_link anchor w = w\<lparr>location_hash := href (dom w anchor)\<rparr>"

fun handler :: "page \<Rightarrow> event \<Rightarrow> world \<Rightarrow> outcome" where
  "handler p ThemeToggleClick w = toggleTheme p w"
| "handler p (FavoriteClick i) w = Returned (toggleFavorite (favorite_btns p ! i) i w)"
| "handler p (CardMouseEnter c) w = Returned (onCardHover p (product_cards p ! c) True w)"
| "handler p (CardMouseLeave c) w = Returned (onCardHover p (product_cards p ! c) False w)"
| "handler p (CardClick c in_favorite) w = card_click p (product_cards p ! c) in_favorite w"
| "handler p (AnchorClick a) w =
     (case anchor_click p (anchors p ! a) w of
        (prevented, Returned w') \<Rightarrow>
          Returned (if prevented then w' else follow_link (anchors p ! a) w')
      | (prevented, Threw e w') \<Rightarrow>
          Threw e (if prevented then w' else follow_link (anchors p ! a) w'))"
| "handler p (Intersection entries) w = Returned (observer_callback entries w)"
| "handler p (TimerFires k) w =
     Returned (fire (snd (timeouts w ! k))
                 (w\<lparr>timeouts := take k (timeouts w) @ drop (Suc k) (timeouts w)\<rparr>))"

text \<open>What the browser does for an event that no callback of the script receives.\<close>

fun unhandled :: "page \<Rightarrow> event \<Rightarrow> world \<Rightarrow> world" where
  "unhandled p (AnchorClick a) w =
     (if a < length (anchors p) then follow_link (anchors p ! a) w else w)"
| "unhandled p ev w = w"

definition dispatch :: "page \<Rightarrow> event \<Rightarrow> world \<Rightarrow> outcome" where
  "dispatch p ev w = (if delivered p ev w then handler p ev w else Returned (unhandled p ev w))"

text \<open>A run of events; an exception ends one callback, not the page.\<close>

fun run :: "page \<Rightarrow> event list \<Rightarrow> world \<Rightarrow> world" where
  "run p [] w = w"
| "run p (ev # evs) w = run p evs (world_of (dispatch p ev w))"

subsection \<open>A page and a blank state to compute on\<close>

definition blank :: element where
  "blank = \<lparr>classList = {}, data_theme = None, href = [], textContent = [],
            style_transform = [], style_animation = [], style_position = [],
            style_overflow = [], ripples = 0\<rparr>"

text \<open>
  A shop page: the root element is node 0, the theme toggle node 1, two favorite
  buttons, two cards of which the second has no name element, two anchors (one to
  \<^verbatim>\<open>#products\<close>, one to a fragment that is not on the page) and two product images.
\<close>

definition shop :: page where
  "shop = \<lparr>documentElement = 0, themeToggle = Some 1, favorite_btns = [10, 11],
           product_cards = [20, 21],
           product_name = (\<lambda>c. if c = 20 then Some 30 else None),
           product_image = (\<lambda>c. if c = 20 then Some 50 else if c = 21 then Some 51 else None),
           anchors = [40, 41], product_images = [50, 51],
           querySelector = (\<lambda>s. if s = ''#products'' then Found 60 else NoElement),
           has_IntersectionObserver = True\<rparr>"

definition fresh :: world where
  "fresh = \<lparr>localStorage = Map.empty,
            dom = (\<lambda>n. blank)(30 := blank\<lparr>textContent := ''Linen shirt''\<rparr>,
                                40 := blank\<lparr>href := ''#products''\<rparr>,
                                41 := blank\<lparr>href := ''#missing''\<rparr>),
            currentTheme = [], favorites = [],
            theme_listener = False, favorite_listeners = False, card_listeners = False,
            anchor_listeners = False, observed = {}, timeouts = [], scrolled = [],
            location_hash = [], console = []\<rparr>"

subsection \<open>What each manager owns\<close>

text \<open>
  The state ThemeManager works on, read at a node: the stored theme, its own fields and
  listener, and the attribute and style property it sets.
\<close>

definition theme_state ::
  "world \<Rightarrow> node \<Rightarrow> string option \<times> string \<times> bool \<times> string option \<times> string" where
  "theme_state w n =
     (localStorage w theme_key, currentTheme w, theme_listener w,
      data_theme (dom w n), style_transform (dom w n))"

text \<open>
  The state FavoriteManager works on, read at a node: the stored array, its own field
  and listeners, and the class list and style property it sets.
\<close>

definition favorite_state ::
  "world \<Rightarrow> node \<Rightarrow> string option \<times> nat list \<times> bool \<times> string set \<times> string" where
  "favorite_state w n =
     (localStorage w favorites_key, favorites w, favorite_listeners w,
      classList (dom w n), style_animation (dom w n))"

subsection \<open>The shape of the stored values\<close>

text \<open>
  The value under the theme key is a string by the type of the storage. The value under
  the favorites key has the expected shape when it is the JSON text of an array of
  indices.
\<close>

definition index_array_text :: "string \<Rightarrow> bool" where
  "index_array_text s = (case JSON_parse s of Inl e \<Rightarrow> False | Inr xs \<Rightarrow> True)"

definition shaped :: "world \<Rightarrow> bool" where
  "shaped w =
     (case localStorage w favorites_key of None \<Rightarrow> True | Some s \<Rightarrow> index_array_text s)"

subsection \<open>Loaded images\<close>

definition is_loaded :: "world \<Rightarrow> node \<Rightarrow> bool" where
  "is_loaded w img = (''loaded'' \<in> classList (dom w img))"

subsection \<open>Favorites and the buttons\<close>

text \<open>
  The array holds every index once, only indices of buttons, and the index of a button
  exactly when the button carries the class \<^verbatim>\<open>active\<close>.
\<close>

definition favorites_consistent :: "page \<Rightarrow> world \<Rightarrow> bool" where
  "favorites_consistent p w =
     (distinct (favorites w)
      \<and> list_all (\<lambda>i. i < length (favorite_btns p)) (favorites w)
      \<and> list_all (\<lambda>i. (i \<in> set (favorites w)) = (''active'' \<in> classList (dom w (favorite_btns p ! i))))
           [0..<length (favorite_btns p)])"

text \<open>The storage holds the text of the array, or nothing while the array is empty.\<close>

definition favorites_stored :: "world \<Rightarrow> bool" where
  "favorites_stored w =
     (case localStorage w favorites_key of
        None \<Rightarrow> favorites w = []
      | Some s \<Rightarrow> s = JSON_stringify (favorites w))"

text \<open>The blank state, but the first favorite button is active in the markup.\<close>

definition marked :: world where
  "marked = modify 10 (\<lambda>e. e\<lparr>classList := {''favorite-btn'', ''active''}\<rparr>) fresh"

text \<open>
  A page whose only anchor is a link back to the top, \<^verbatim>\<open><a href="#">\<close>. The text
  \<^verbatim>\<open>#\<close> alone is no selector, since the id is missing, so the query rejects it.
\<close>

definition top_link :: page where
  "top_link = shop\<lparr>anchors := [42],
                    querySelector := (\<lambda>s. if s = ''#'' then InvalidSelector
                                           else querySelector shop s)\<rparr>"

definition top_link_state :: world where
  "top_link_state = modify 42 (\<lambda>e. e\<lparr>href := ''#''\<rparr>) fresh"

section \<open>Properties\<close>

subsection \<open>Stored index arrays are read back as written\<close>

lemma digit_cases: "d < 10 \<Longrightarrow> d \<in> {0, 1, 2, 3, 4, 5, 6, 7, 8, 9::nat}"
  by auto

lemma digit_char_props:
  assumes "d < 10"
  shows "is_digit (digit_char d)" and "digit_value (digit_char d) = d"
    and "digit_char d \<noteq> CHR '',''" and "(digit_char d = CHR ''0'') = (d = 0)"
  using digit_cases [OF assms]
  by (auto simp: digit_char_def is_digit_def digit_value_def)

lemma read_nat_snoc: "read_nat (t @ [c]) = 10 * read_nat t + digit_value c"
  by (simp add: read_nat_def)

lemma show_nat_nonempty: "show_nat n \<noteq> []"
  by (subst show_nat.simps) simp

lemma show_nat_digits: "list_all is_digit (show_nat n)"
  by (induction n rule: show_nat.induct) (subst show_nat.simps, simp add: digit_char_props)

lemma show_nat_no_comma: "CHR '','' \<notin> set (show_nat n)"
proof (induction n rule: show_nat.induct)
  case (1 n)
  show ?case
    using 1 digit_char_props(3) [of "n mod 10"] digit_char_props(3) [of n]
    by (subst show_nat.simps) auto
qed

lemma read_show_nat: "read_nat (show_nat n) = n"
proof (induction n rule: show_nat.induct)
  case (1 n)
  show ?case
  proof (cases "n < 10")
    case True
    then show ?thesis
      by (subst show_nat.simps) (simp add: read_nat_def digit_char_props)
  next
    case False
    with 1 show ?thesis
      by (subst show_nat.simps) (simp add: read_nat_snoc digit_char_props)
  qed
qed

lemma show_nat_hd: "hd (show_nat n) = CHR ''0'' \<Longrightarrow> show_nat n = ''0''"
proof (induction n rule: show_nat.induct)
  case (1 n)
  show ?case
  proof (cases "n < 10")
    case True
    with 1(2) have "n = 0"
      by (subst (asm) show_nat.simps) (simp add: digit_char_props)
    then show ?thesis
      using digit_char_props(4) [of 0] by (subst show_nat.simps) simp
  next
    case False
    then have unfold: "show_nat n = show_nat (n div 10) @ [digit_char (n mod 10)]"
      by (subst show_nat.simps) simp
    with 1(2) have "hd (show_nat (n div 10)) = CHR ''0''"
      by (simp add: show_nat_nonempty)
    with 1(1) False have "show_nat (n div 10) = ''0''" by simp
    then have "read_nat (show_nat (n div 10)) = 0"
      by (simp add: read_nat_def digit_value_def)
    then have "n div 10 = 0" by (simp add: read_show_nat)
    with False show ?thesis by simp
  qed
qed

lemma show_nat_token: "number_token (show_nat n)"
  using show_nat_hd [of n] by (simp add: number_token_def show_nat_nonempty show_nat_digits)

lemma split_commas_nonempty: "split_commas s \<noteq> []"
  by (induction s) auto

lemma split_commas_prefix:
  "CHR '','' \<notin> set t \<Longrightarrow>
   split_commas (t @ s) = (t @ hd (split_commas s)) # tl (split_commas s)"
  by (induction t) (auto simp: split_commas_nonempty)

lemma split_commas_plain: "CHR '','' \<notin> set t \<Longrightarrow> split_commas t = [t]"
  using split_commas_prefix [of t "[]"] by simp

lemma split_join_commas:
  "ts \<noteq> [] \<Longrightarrow> \<forall>t \<in> set ts. CHR '','' \<notin> set t \<Longrightarrow> split_commas (join_commas ts) = ts"
proof (induction ts rule: join_commas.induct)
  case 1
  then show ?case by simp
next
  case (2 t)
  then show ?case by (simp add: split_commas_plain)
next
  case (3 t u ts)
  then show ?case by (simp add: split_commas_prefix)
qed

lemma join_commas_nonempty: "ts \<noteq> [] \<Longrightarrow> \<forall>t \<in> set ts. t \<noteq> [] \<Longrightarrow> join_commas ts \<noteq> []"
  by (induction ts rule: join_commas.induct) auto

lemma JSON_roundtrip: "JSON_parse (JSON_stringify xs) = Inr xs"
proof (cases "xs = []")
  case True
  then show ?thesis by (simp add: JSON_parse_def JSON_stringify_def)
next
  case False
  let ?ts = "map show_nat xs"
  have ne: "join_commas ?ts \<noteq> []"
    using False by (intro join_commas_nonempty) (auto simp: show_nat_nonempty)
  have split: "split_commas (join_commas ?ts) = ?ts"
    using False by (intro split_join_commas) (auto simp: show_nat_no_comma)
  have toks: "list_all number_token ?ts"
    by (simp add: list_all_iff show_nat_token)
  have vals: "map read_nat ?ts = xs"
    by (simp add: read_show_nat comp_def)
  show ?thesis
    using ne split toks vals by (simp add: JSON_parse_def JSON_stringify_def)
qed

lemma JSON_stringify_nonempty: "JSON_stringify xs \<noteq> []"
  by (simp add: JSON_stringify_def)

subsection \<open>Unfolding the methods\<close>

lemmas theme_defs = getStoredTheme_def setStoredTheme_def applyTheme_def toggleTheme_def
  stored_or_light_def ThemeManager_init_def ThemeManager_def modify_def setTimeout_def

lemma modify_fields [simp]:
  "localStorage (modify n f w) = localStorage w"
  "dom (modify n f w) = (dom w)(n := f (dom w n))"
  "currentTheme (modify n f w) = currentTheme w"
  "favorites (modify n f w) = favorites w"
  "theme_listener (modify n f w) = theme_listener w"
  "favorite_listeners (modify n f w) = favorite_listeners w"
  "card_listeners (modify n f w) = card_listeners w"
  "anchor_listeners (modify n f w) = anchor_listeners w"
  "observed (modify n f w) = observed w"
  "timeouts (modify n f w) = timeouts w"
  "scrolled (modify n f w) = scrolled w"
  "location_hash (modify n f w) = location_hash w"
  "console (modify n f w) = console w"
  by (simp_all add: modify_def)

lemma setTimeout_fields [simp]:
  "localStorage (setTimeout t ms w) = localStorage w"
  "dom (setTimeout t ms w) = dom w"
  "currentTheme (setTimeout t ms w) = currentTheme w"
  "favorites (setTimeout t ms w) = favorites w"
  "theme_listener (setTimeout t ms w) = theme_listener w"
  "favorite_listeners (setTimeout t ms w) = favorite_listeners w"
  "card_listeners (setTimeout t ms w) = card_listeners w"
  "anchor_listeners (setTimeout t ms w) = anchor_listeners w"
  "observed (setTimeout t ms w) = observed w"
  "timeouts (setTimeout t ms w) = timeouts w @ [(ms, t)]"
  "scrolled (setTimeout t ms w) = scrolled w"
  "location_hash (setTimeout t ms w) = location_hash w"
  "console (setTimeout t ms w) = console w"
  by (simp_all add: setTimeout_def)

text \<open>The loop of \<open>FavoriteManager_init\<close> touches classes and the listener flag only.\<close>

lemma restore_buttons_fields [simp]:
  "localStorage (restore_buttons btns k w) = localStorage w"
  "currentTheme (restore_buttons btns k w) = currentTheme w"
  "favorites (restore_buttons btns k w) = favorites w"
  "theme_listener (restore_buttons btns k w) = theme_listener w"
  "card_listeners (restore_buttons btns k w) = card_listeners w"
  "anchor_listeners (restore_buttons btns k w) = anchor_listeners w"
  "observed (restore_buttons btns k w) = observed w"
  "timeouts (restore_buttons btns k w) = timeouts w"
  "scrolled (restore_buttons btns k w) = scrolled w"
  "location_hash (restore_buttons btns k w) = location_hash w"
  "console (restore_buttons btns k w) = console w"
  by (induction btns k w rule: restore_buttons.induct; simp)+


lemma restore_buttons_element:
  "data_theme (dom (restore_buttons btns k w) n) = data_theme (dom w n)
   \<and> href (dom (restore_buttons btns k w) n) = href (dom w n)
   \<and> textContent (dom (restore_buttons btns k w) n) = textContent (dom w n)
   \<and> style_transform (dom (restore_buttons btns k w) n) = style_transform (dom w n)
   \<and> style_animation (dom (restore_buttons btns k w) n) = style_animation (dom w n)
   \<and> style_position (dom (restore_buttons btns k w) n) = style_position (dom w n)
   \<and> style_overflow (dom (restore_buttons btns k w) n) = style_overflow (dom w n)
   \<and> ripples (dom (restore_buttons btns k w) n) = ripples (dom w n)
   \<and> classList (dom (restore_buttons btns k w) n) - {''active''} = classList (dom w n) - {''active''}"
  by (induction btns k w rule: restore_buttons.induct) auto

lemma restore_buttons_none:
  "favorites w = [] \<Longrightarrow> dom (restore_buttons btns k w) = dom w"
  by (induction btns k w rule: restore_buttons.induct) auto

text \<open>The observer's callback, entry by entry, in closed form.\<close>

lemma observer_callback_fields [simp]:
  "localStorage (observer_callback es w) = localStorage w"
  "currentTheme (observer_callback es w) = currentTheme w"
  "favorites (observer_callback es w) = favorites w"
  "theme_listener (observer_callback es w) = theme_listener w"
  "favorite_listeners (observer_callback es w) = favorite_listeners w"
  "card_listeners (observer_callback es w) = card_listeners w"
  "anchor_listeners (observer_callback es w) = anchor_listeners w"
  "timeouts (observer_callback es w) = timeouts w"
  "scrolled (observer_callback es w) = scrolled w"
  "location_hash (observer_callback es w) = location_hash w"
  "console (observer_callback es w) = console w"
  unfolding observer_callback_def
  by (induction es arbitrary: w; simp split: prod.splits)+

lemma observer_callback_observed:
  "observed (observer_callback es w) = observed w - {img. (img, True) \<in> set es}"
  unfolding observer_callback_def
  by (induction es arbitrary: w) (auto split: prod.splits)

lemma observer_callback_dom:
  "dom (observer_callback es w) n =
     (if (n, True) \<in> set es
      then (dom w n)\<lparr>classList := insert ''loaded'' (classList (dom w n))\<rparr>
      else dom w n)"
  unfolding observer_callback_def
  by (induction es arbitrary: w) (auto split: prod.splits)

lemma observe_all:
  "fold (\<lambda>img w. w\<lparr>observed := insert img (observed w)\<rparr>) imgs w =
     w\<lparr>observed := set imgs \<union> observed w\<rparr>"
  by (induction imgs arbitrary: w) auto

lemma LazyLoader_eq:
  "LazyLoader p w =
     (if has_IntersectionObserver p then w\<lparr>observed := set (product_images p)\<rparr> else w)"
  by (simp add: LazyLoader_def observe_all)

lemma keys_differ: "theme_key \<noteq> favorites_key"
  by (simp add: theme_key_def favorites_key_def)

lemmas favorite_defs = getStoredFavorites_def setStoredFavorites_def animateButton_def
  toggleFavorite_def FavoriteManager_init_def FavoriteManager_def

lemmas page_defs = ProductInteractions_def SmoothScroll_def LazyLoader_eq onCardHover_def
  createRipple_def onCardClick_def card_click_def anchor_click_def follow_link_def

lemma DOMContentLoaded_storage:
  "localStorage (world_of (DOMContentLoaded p w)) = localStorage (ThemeManager p w)"
  by (simp add: DOMContentLoaded_def favorite_defs page_defs split: sum.splits option.splits)

subsection \<open>ThemeManager\<close>

text \<open>
  C3. Toggling sends \<^verbatim>\<open>light\<close> to \<^verbatim>\<open>dark\<close> and every other current theme to
  \<^verbatim>\<open>light\<close>; the attribute on the root element and the stored value follow the new
  theme. On the two themes \<^verbatim>\<open>light\<close> and \<^verbatim>\<open>dark\<close> the result is the other one, and
  toggling twice gives the theme back.
\<close>

theorem toggleTheme_binary:
  "currentTheme (world_of (toggleTheme p w)) =
     (if currentTheme w = ''light'' then ''dark'' else ''light'')
   \<and> data_theme (dom (world_of (toggleTheme p w)) (documentElement p)) =
       Some (currentTheme (world_of (toggleTheme p w)))
   \<and> getStoredTheme (world_of (toggleTheme p w)) =
       Some (currentTheme (world_of (toggleTheme p w)))
   \<and> (currentTheme w \<in> {''light'', ''dark''} \<longrightarrow>
        currentTheme (world_of (toggleTheme p w)) \<in> {''light'', ''dark''}
        \<and> currentTheme (world_of (toggleTheme p w)) \<noteq> currentTheme w
        \<and> currentTheme (world_of (toggleTheme p (world_of (toggleTheme p w)))) = currentTheme w)"
  by (cases "themeToggle p") (auto simp: theme_defs Let_def)

theorem toggleTheme_binary_witness:
  "currentTheme (world_of (toggleTheme shop (ThemeManager shop fresh))) = ''dark''
   \<and> currentTheme (world_of (toggleTheme shop (world_of (toggleTheme shop (ThemeManager shop fresh))))) = ''light''"
  using toggleTheme_binary [of shop "ThemeManager shop fresh"]
  by (simp add: theme_defs fresh_def shop_def Let_def)

text \<open>
  C10. Constructing a ThemeManager always stores the theme it applies. On a storage
  without a theme it picks \<^verbatim>\<open>light\<close>, sets it on the root element and stores it, so
  the page load alone leaves a stored theme.
\<close>

theorem ThemeManager_writes_theme:
  "localStorage (ThemeManager p w) theme_key = Some (currentTheme (ThemeManager p w))
   \<and> data_theme (dom (ThemeManager p w) (documentElement p)) = Some (currentTheme (ThemeManager p w))
   \<and> (getStoredTheme w = None \<longrightarrow>
        currentTheme (ThemeManager p w) = ''light''
        \<and> data_theme (dom (ThemeManager p w) (documentElement p)) = Some ''light''
        \<and> localStorage (ThemeManager p w) theme_key = Some ''light''
        \<and> localStorage (world_of (DOMContentLoaded p w)) theme_key = Some ''light'')"
  by (simp add: DOMContentLoaded_storage) (simp add: theme_defs Let_def)

theorem ThemeManager_writes_theme_witness:
  "getStoredTheme fresh = None
   \<and> localStorage (ThemeManager shop fresh) theme_key = Some ''light''
   \<and> data_theme (dom (ThemeManager shop fresh) 0) = Some ''light''
   \<and> localStorage (world_of (DOMContentLoaded shop fresh)) theme_key = Some ''light''"
proof -
  have none: "getStoredTheme fresh = None"
    by (simp add: getStoredTheme_def fresh_def)
  have root: "documentElement shop = 0"
    by (simp add: shop_def)
  show ?thesis
    using ThemeManager_writes_theme [of shop fresh] none root by simp
qed

text \<open>
  C1. \<^verbatim>\<open>applyTheme(t)\<close> stores \<open>t\<close> under the theme key. A ThemeManager
  constructed later on that storage (on any page, in any other state) reads the value
  back and applies it, provided \<open>t\<close> is not the empty string.
\<close>

theorem ThemeManager_restores_stored_theme:
  "localStorage (applyTheme p t w) theme_key = Some t
   \<and> (t \<noteq> [] \<and> localStorage w' = localStorage (applyTheme p t w) \<longrightarrow>
        getStoredTheme w' = Some t
        \<and> currentTheme (ThemeManager p' w') = t
        \<and> data_theme (dom (ThemeManager p' w') (documentElement p')) = Some t
        \<and> localStorage (ThemeManager p' w') theme_key = Some t)"
  by (simp add: theme_defs Let_def)

theorem ThemeManager_restores_stored_theme_witness:
  "localStorage (applyTheme shop ''dark'' fresh) theme_key = Some ''dark''
   \<and> data_theme (dom (ThemeManager shop (applyTheme shop ''dark'' fresh)) (documentElement shop))
       = Some ''dark''"
  using ThemeManager_restores_stored_theme
          [of shop "''dark''" fresh "applyTheme shop ''dark'' fresh" shop]
  by simp

text \<open>
  The empty string is stored as it is, but it is falsy: the constructor then takes the
  default \<^verbatim>\<open>light\<close>.
\<close>

theorem empty_theme_not_restored:
  "localStorage (applyTheme shop [] fresh) theme_key = Some []
   \<and> data_theme (dom (ThemeManager shop (applyTheme shop [] fresh)) (documentElement shop))
       = Some ''light''
   \<and> data_theme (dom (ThemeManager shop (applyTheme shop [] fresh)) (documentElement shop))
       \<noteq> Some []"
  by (simp add: theme_defs Let_def shop_def fresh_def)

subsection \<open>The managers keep to their own state\<close>

lemma theme_ops_keep_favorites:
  "favorite_state (applyTheme p t w) n = favorite_state w n"
  "favorite_state (world_of (toggleTheme p w)) n = favorite_state w n"
  "favorite_state (ThemeManager p w) n = favorite_state w n"
  "favorite_state (fire (ResetTransform x) w) n = favorite_state w n"
  using keys_differ
  by (auto simp: favorite_state_def theme_defs Let_def split: option.splits)

lemma favorite_ops_keep_theme:
  "theme_state (toggleFavorite b i w) n = theme_state w n"
  "theme_state (world_of (FavoriteManager p w)) n = theme_state w n"
  "theme_state (fire (ResetAnimation x) w) n = theme_state w n"
  using keys_differ restore_buttons_element [of "favorite_btns p" 0 _ n]
  by (auto simp: theme_state_def favorite_defs Let_def split: sum.splits)

lemma theme_ops_other_keys:
  "k \<noteq> theme_key \<Longrightarrow> localStorage (applyTheme p t w) k = localStorage w k"
  "k \<noteq> theme_key \<Longrightarrow> localStorage (world_of (toggleTheme p w)) k = localStorage w k"
  "k \<noteq> theme_key \<Longrightarrow> localStorage (ThemeManager p w) k = localStorage w k"
  by (auto simp: theme_defs Let_def split: option.splits)




lemma restore_buttons_classList:
  "classList (dom (restore_buttons btns k w) n) =
     (if \<exists>j < length btns. btns ! j = n \<and> k + j \<in> set (favorites w)
      then insert ''active'' (classList (dom w n))
      else classList (dom w n))"
proof (induction btns k w rule: restore_buttons.induct)
  case (1 index w)
  then show ?case by simp
next
  case (2 btn btns index w)
  have split: "(\<exists>j < length (btn # btns). (btn # btns) ! j = n \<and> index + j \<in> set (favorites w))
      = ((btn = n \<and> index \<in> set (favorites w))
         \<or> (\<exists>j < length btns. btns ! j = n \<and> Suc index + j \<in> set (favorites w)))"
    by (auto simp: less_Suc_eq_0_disj)
  show ?case
    unfolding split using 2 by (auto simp: insert_commute)
qed





subsection \<open>Writes to the storage\<close>

lemma fire_storage [simp]: "localStorage (fire t w) = localStorage w"
  by (cases t) simp_all

lemma other_events_keep_storage:
  assumes "ev \<noteq> ThemeToggleClick" and "\<forall>i. ev \<noteq> FavoriteClick i"
  shows "localStorage (world_of (dispatch p ev w)) = localStorage w"
  using assms
  by (cases ev)
     (auto simp: dispatch_def page_defs split: option.splits query_result.splits)

lemma theme_click_storage:
  "k \<noteq> theme_key \<Longrightarrow> localStorage (world_of (dispatch p ThemeToggleClick w)) k = localStorage w k"
  by (simp add: dispatch_def theme_ops_other_keys)

lemma favorite_click_storage:
  "localStorage (world_of (dispatch p (FavoriteClick i) w)) favorites_key = localStorage w favorites_key
   \<or> (\<exists>xs. localStorage (world_of (dispatch p (FavoriteClick i) w)) favorites_key
          = Some (JSON_stringify xs))"
  "k \<noteq> favorites_key \<Longrightarrow>
     localStorage (world_of (dispatch p (FavoriteClick i) w)) k = localStorage w k"
  by (auto simp: dispatch_def favorite_defs Let_def)

lemma index_array_text_stringify: "index_array_text (JSON_stringify xs)"
  by (simp add: index_array_text_def JSON_roundtrip)

lemma dispatch_shaped: "shaped w \<Longrightarrow> shaped (world_of (dispatch p ev w))"
proof (cases "\<exists>i. ev = FavoriteClick i")
  case True
  then obtain i where ev: "ev = FavoriteClick i" by blast
  assume "shaped w"
  with favorite_click_storage(1) [of p i w] show ?thesis
    unfolding ev shaped_def by (auto simp: index_array_text_stringify)
next
  case False
  assume sh: "shaped w"
  show ?thesis
  proof (cases "ev = ThemeToggleClick")
    case True
    with sh theme_click_storage [of favorites_key p w] keys_differ show ?thesis
      by (simp add: shaped_def)
  next
    case nt: False
    with False sh other_events_keep_storage [of ev p w] show ?thesis
      by (simp add: shaped_def)
  qed
qed

lemma run_shaped: "shaped w \<Longrightarrow> shaped (run p evs w)"
  by (induction evs arbitrary: w) (simp_all add: dispatch_shaped)

lemma load_other_keys:
  "k \<noteq> theme_key \<Longrightarrow> localStorage (world_of (DOMContentLoaded p w)) k = localStorage w k"
  by (simp add: DOMContentLoaded_storage theme_ops_other_keys)

text \<open>
  C9. The script writes two keys only, and every callback leaves the array text under
  the favorites key well-formed. After the page load, the theme key is written by the
  click on the theme toggle only and the favorites key by the click on a favorite button
  only, within the click's own callback: no timeout and no other event writes. The page
  load itself writes the theme key, and nothing else.
\<close>

theorem storage_two_values:
  "(k \<noteq> theme_key \<and> k \<noteq> favorites_key \<longrightarrow>
      localStorage (world_of (dispatch p ev w)) k = localStorage w k
      \<and> localStorage (world_of (DOMContentLoaded p w)) k = localStorage w k)
   \<and> (localStorage (world_of (dispatch p ev w)) theme_key \<noteq> localStorage w theme_key \<longrightarrow>
        ev = ThemeToggleClick)
   \<and> (localStorage (world_of (dispatch p ev w)) favorites_key \<noteq> localStorage w favorites_key \<longrightarrow>
        (\<exists>i. ev = FavoriteClick i))
   \<and> localStorage (world_of (DOMContentLoaded p w)) favorites_key = localStorage w favorites_key
   \<and> (shaped w \<longrightarrow>
        shaped (world_of (DOMContentLoaded p w)) \<and> shaped (world_of (dispatch p ev w))
        \<and> shaped (run p evs w))"
proof -
  have keys: "favorites_key \<noteq> theme_key" using keys_differ by simp
  have other: "localStorage (world_of (dispatch p ev w)) k = localStorage w k"
    if "k \<noteq> theme_key" "k \<noteq> favorites_key"
  proof (cases "\<exists>i. ev = FavoriteClick i")
    case True
    then obtain i where "ev = FavoriteClick i" by blast
    with that favorite_click_storage(2) [of k p i w] show ?thesis by simp
  next
    case False
    with that theme_click_storage [of k p w] other_events_keep_storage [of ev p w]
    show ?thesis by (cases "ev = ThemeToggleClick") auto
  qed
  have theme: "ev = ThemeToggleClick"
    if "localStorage (world_of (dispatch p ev w)) theme_key \<noteq> localStorage w theme_key"
  proof (cases "\<exists>i. ev = FavoriteClick i")
    case True
    then obtain i where "ev = FavoriteClick i" by blast
    with that favorite_click_storage(2) [of theme_key p i w] keys_differ show ?thesis by simp
  next
    case False
    with that other_events_keep_storage [of ev p w] show ?thesis
      by (cases "ev = ThemeToggleClick") simp_all
  qed
  have fav: "\<exists>i. ev = FavoriteClick i"
    if "localStorage (world_of (dispatch p ev w)) favorites_key \<noteq> localStorage w favorites_key"
  proof (rule ccontr)
    assume no: "\<nexists>i. ev = FavoriteClick i"
    show False
    proof (cases "ev = ThemeToggleClick")
      case True
      with that theme_click_storage [of favorites_key p w] keys show False by simp
    next
      case False
      with no have "localStorage (world_of (dispatch p ev w)) = localStorage w"
        by (intro other_events_keep_storage) auto
      with that show False by simp
    qed
  qed
  have load: "localStorage (world_of (DOMContentLoaded p w)) favorites_key = localStorage w favorites_key"
    using keys by (simp add: load_other_keys)
  have shaped_load: "shaped (world_of (DOMContentLoaded p w))" if "shaped w"
    using that load by (simp add: shaped_def)
  show ?thesis
    using other theme fav load shaped_load
    by (simp add: load_other_keys dispatch_shaped run_shaped)
qed

theorem storage_two_values_witness:
  "shaped fresh
   \<and> shaped (run shop [FavoriteClick 1, ThemeToggleClick, TimerFires 0]
               (world_of (DOMContentLoaded shop fresh)))
   \<and> localStorage (world_of (dispatch shop (TimerFires 0) fresh)) theme_key
       = localStorage fresh theme_key"
proof -
  have start: "shaped fresh"
    by (simp add: shaped_def fresh_def)
  from start have "shaped (world_of (DOMContentLoaded shop fresh))"
    using storage_two_values [where p = shop and w = fresh] by blast
  then have "shaped (run shop [FavoriteClick 1, ThemeToggleClick, TimerFires 0]
               (world_of (DOMContentLoaded shop fresh)))"
    using storage_two_values [where p = shop and w = "world_of (DOMContentLoaded shop fresh)"
        and evs = "[FavoriteClick 1, ThemeToggleClick, TimerFires 0]"]
    by blast
  moreover have "localStorage (world_of (dispatch shop (TimerFires 0) fresh)) theme_key
       = localStorage fresh theme_key"
    using storage_two_values [where p = shop and ev = "TimerFires 0" and w = fresh] by blast
  ultimately show ?thesis using start by simp
qed

text \<open>
  The write that no click triggers: loading the page on an empty storage stores the
  default theme.
\<close>

theorem page_load_writes_theme:
  "localStorage fresh theme_key = None
   \<and> localStorage (world_of (DOMContentLoaded shop fresh)) theme_key = Some ''light''"
  by (simp add: DOMContentLoaded_storage theme_defs Let_def fresh_def shop_def)

subsection \<open>LazyLoader\<close>

lemma fire_loaded [simp]:
  "classList (dom (fire t w) n) = classList (dom w n)" "observed (fire t w) = observed w"
  by (cases t; simp)+

lemma toggleFavorite_loaded:
  "is_loaded (toggleFavorite b i w) n = is_loaded w n"
  "observed (toggleFavorite b i w) = observed w"
  by (auto simp: is_loaded_def favorite_defs Let_def)

lemma toggleTheme_loaded:
  "is_loaded (world_of (toggleTheme p w)) n = is_loaded w n"
  "observed (world_of (toggleTheme p w)) = observed w"
  by (auto simp: is_loaded_def theme_defs Let_def split: option.splits)

lemma other_events_keep_loaded:
  assumes "\<forall>es. ev \<noteq> Intersection es"
  shows "is_loaded (world_of (dispatch p ev w)) n = is_loaded w n"
    and "observed (world_of (dispatch p ev w)) = observed w"
  using assms toggleFavorite_loaded toggleTheme_loaded
  by (cases ev; auto simp: dispatch_def is_loaded_def page_defs
        split: option.splits query_result.splits)+

lemma intersection_loaded:
  "is_loaded (world_of (dispatch p (Intersection es) w)) n =
     (is_loaded w n \<or> (delivered p (Intersection es) w \<and> (n, True) \<in> set es))"
  "observed (world_of (dispatch p (Intersection es) w)) =
     (if delivered p (Intersection es) w then observed w - {img. (img, True) \<in> set es}
      else observed w)"
  by (auto simp: dispatch_def is_loaded_def observer_callback_dom observer_callback_observed)

lemma delivered_observed:
  "delivered p (Intersection es) w \<Longrightarrow> (n, b) \<in> set es \<Longrightarrow> n \<in> observed w"
  by (auto simp: list_all_iff)

lemma dispatch_loaded_mono:
  "is_loaded w n \<Longrightarrow> is_loaded (world_of (dispatch p ev w)) n"
  using other_events_keep_loaded(1) [of ev p w n] intersection_loaded(1) [of p _ w n]
  by (cases "\<exists>es. ev = Intersection es") auto

lemma dispatch_observed_mono:
  "n \<notin> observed w \<Longrightarrow> n \<notin> observed (world_of (dispatch p ev w))"
  using other_events_keep_loaded(2) [of ev p w] intersection_loaded(2) [of p _ w]
  by (cases "\<exists>es. ev = Intersection es") (auto split: if_splits)

lemma run_loaded_mono: "is_loaded w n \<Longrightarrow> is_loaded (run p evs w) n"
  by (induction evs arbitrary: w) (simp_all add: dispatch_loaded_mono)

lemma run_observed_mono: "n \<notin> observed w \<Longrightarrow> n \<notin> observed (run p evs w)"
  by (induction evs arbitrary: w) (simp_all add: dispatch_observed_mono)

lemma dispatch_newly_loaded:
  assumes "is_loaded (world_of (dispatch p ev w)) n" and "\<not> is_loaded w n"
  shows "\<exists>es. ev = Intersection es \<and> (n, True) \<in> set es \<and> n \<in> observed w"
proof (cases "\<exists>es. ev = Intersection es")
  case True
  then obtain es where ev: "ev = Intersection es" by blast
  with assms intersection_loaded(1) [of p es w n]
  have "delivered p (Intersection es) w" and "(n, True) \<in> set es" by auto
  with ev delivered_observed [of p es w n True] show ?thesis by simp
next
  case False
  with assms other_events_keep_loaded(1) [of ev p w n] show ?thesis by simp
qed

lemma no_observer_dispatch:
  assumes "observed w = {}"
  shows "is_loaded (world_of (dispatch p ev w)) n = is_loaded w n"
    and "observed (world_of (dispatch p ev w)) = {}"
proof -
  have "\<not> is_loaded w n \<Longrightarrow> \<not> is_loaded (world_of (dispatch p ev w)) n"
    using dispatch_newly_loaded [of p ev w n] assms by auto
  then show "is_loaded (world_of (dispatch p ev w)) n = is_loaded w n"
    using dispatch_loaded_mono [of w n p ev] by blast
  show "observed (world_of (dispatch p ev w)) = {}"
    using dispatch_observed_mono [of _ w p ev] assms by blast
qed

lemma no_observer_run:
  "observed w = {} \<Longrightarrow> is_loaded (run p evs w) n = is_loaded w n \<and> observed (run p evs w) = {}"
  by (induction evs arbitrary: w) (simp_all add: no_observer_dispatch)

lemma ThemeManager_loaded:
  "is_loaded (ThemeManager p w) n = is_loaded w n" "observed (ThemeManager p w) = observed w"
  by (auto simp: is_loaded_def theme_defs Let_def)

lemma FavoriteManager_loaded:
  "is_loaded (world_of (FavoriteManager p w)) n = is_loaded w n"
  "observed (world_of (FavoriteManager p w)) = observed w"
  by (auto simp: is_loaded_def favorite_defs restore_buttons_classList split: sum.splits)

lemma wiring_loaded:
  "is_loaded ((LazyLoader p (SmoothScroll p (ProductInteractions p w)))\<lparr>console := c\<rparr>) n
     = is_loaded w n"
  "\<not> has_IntersectionObserver p \<Longrightarrow>
     observed ((LazyLoader p (SmoothScroll p (ProductInteractions p w)))\<lparr>console := c\<rparr>)
       = observed w"
  by (auto simp: is_loaded_def page_defs)

lemma load_loaded:
  "is_loaded (world_of (DOMContentLoaded p w)) n = is_loaded w n"
  using FavoriteManager_loaded(1) [of p "ThemeManager p w" n] ThemeManager_loaded(1) [of p w n]
  by (cases "FavoriteManager p (ThemeManager p w)")
     (simp_all add: DOMContentLoaded_def wiring_loaded)

lemma load_observed:
  "\<not> has_IntersectionObserver p \<Longrightarrow> observed (world_of (DOMContentLoaded p w)) = observed w"
  using FavoriteManager_loaded(2) [of p "ThemeManager p w"] ThemeManager_loaded(2) [of p w]
  by (cases "FavoriteManager p (ThemeManager p w)")
     (simp_all add: DOMContentLoaded_def wiring_loaded)

text \<open>
  C7. An image gets the class \<^verbatim>\<open>loaded\<close> only from an observer callback whose entry
  for it is intersecting, and is then no longer observed. The class is never removed.
  An image that is not observed stays so, and no callback the observer delivers names it
  again. Without \<^verbatim>\<open>IntersectionObserver\<close> the page load observes nothing, and no
  image is ever marked.
\<close>

theorem LazyLoader_marks_on_entry_once:
  "(is_loaded (world_of (dispatch p ev w)) img \<and> \<not> is_loaded w img \<longrightarrow>
      (\<exists>es. ev = Intersection es \<and> (img, True) \<in> set es \<and> img \<in> observed w))
   \<and> is_loaded (world_of (DOMContentLoaded p w)) img = is_loaded w img
   \<and> (delivered p (Intersection es) w \<and> (img, True) \<in> set es \<longrightarrow>
        is_loaded (world_of (dispatch p (Intersection es) w)) img
        \<and> img \<notin> observed (world_of (dispatch p (Intersection es) w)))
   \<and> (is_loaded w img \<longrightarrow> is_loaded (run p evs w) img)
   \<and> (img \<notin> observed w \<longrightarrow>
        img \<notin> observed (run p evs w)
        \<and> (delivered p (Intersection es') (run p evs w) \<longrightarrow> (img, b) \<notin> set es'))
   \<and> (\<not> has_IntersectionObserver p \<and> observed w = {} \<longrightarrow>
        is_loaded (run p evs (world_of (DOMContentLoaded p w))) img = is_loaded w img)"
proof -
  have unavailable: "is_loaded (run p evs (world_of (DOMContentLoaded p w))) img = is_loaded w img"
    if "\<not> has_IntersectionObserver p" "observed w = {}"
  proof -
    from that have "observed (world_of (DOMContentLoaded p w)) = {}"
      by (simp add: load_observed)
    then show ?thesis
      by (simp add: no_observer_run load_loaded)
  qed
  have again: "(img, b) \<notin> set es'"
    if "img \<notin> observed w" "delivered p (Intersection es') (run p evs w)"
    using that run_observed_mono [of img w p evs]
      delivered_observed [of p es' "run p evs w" img b]
    by blast
  show ?thesis
    using dispatch_newly_loaded [of p ev w img] unavailable again
    by (auto simp: load_loaded intersection_loaded run_loaded_mono run_observed_mono
        simp del: delivered.simps)
qed

theorem LazyLoader_marks_on_entry_once_witness:
  "delivered shop (Intersection [(50, True), (51, False)]) (world_of (DOMContentLoaded shop fresh))
   \<and> is_loaded (world_of (dispatch shop (Intersection [(50, True), (51, False)])
                  (world_of (DOMContentLoaded shop fresh)))) 50
   \<and> 50 \<notin> observed (world_of (dispatch shop (Intersection [(50, True), (51, False)])
                  (world_of (DOMContentLoaded shop fresh))))
   \<and> \<not> is_loaded (world_of (DOMContentLoaded shop fresh)) 51"
proof -
  have obs: "observed (world_of (DOMContentLoaded shop fresh)) = {50, 51}"
    by (simp add: DOMContentLoaded_def favorite_defs page_defs theme_defs Let_def
        shop_def fresh_def theme_key_def favorites_key_def insert_commute)
  then have del: "delivered shop (Intersection [(50, True), (51, False)])
      (world_of (DOMContentLoaded shop fresh))"
    by simp
  have start: "\<not> is_loaded fresh 51"
    by (simp add: is_loaded_def fresh_def blank_def)
  show ?thesis
    using del start
      LazyLoader_marks_on_entry_once [where p = shop and w = "world_of (DOMContentLoaded shop fresh)"
        and es = "[(50, True), (51, False)]" and img = 50]
      LazyLoader_marks_on_entry_once [where p = shop and w = fresh and img = 51]
    by simp
qed

subsection \<open>FavoriteManager\<close>

lemma favorites_consistent_iff:
  "favorites_consistent p w =
     (distinct (favorites w)
      \<and> (\<forall>i \<in> set (favorites w). i < length (favorite_btns p))
      \<and> (\<forall>i < length (favorite_btns p).
            (i \<in> set (favorites w)) = (''active'' \<in> classList (dom w (favorite_btns p ! i)))))"
  by (auto simp: favorites_consistent_def list_all_iff)

lemma toggleFavorite_consistent:
  assumes "distinct (favorite_btns p)" and "i < length (favorite_btns p)"
    and "favorites_consistent p w"
  shows "favorites_consistent p (toggleFavorite (favorite_btns p ! i) i w)"
proof (cases "''active'' \<in> classList (dom w (favorite_btns p ! i))")
  case True
  with assms show ?thesis
    by (auto simp: favorites_consistent_iff favorite_defs Let_def nth_eq_iff_index_eq)
next
  case False
  with assms show ?thesis
    by (auto simp: favorites_consistent_iff favorite_defs Let_def nth_eq_iff_index_eq)
qed

lemma toggleFavorite_stored:
  "localStorage (toggleFavorite b i w) favorites_key
     = Some (JSON_stringify (favorites (toggleFavorite b i w)))"
  by (simp add: favorite_defs Let_def)

lemma favorites_stored_read:
  "favorites_stored w \<Longrightarrow> getStoredFavorites w = Inr (favorites w)"
  by (auto simp: favorites_stored_def getStoredFavorites_def JSON_roundtrip
      JSON_stringify_nonempty split: option.splits)

lemma fire_favorites [simp]: "favorites (fire t w) = favorites w"
  by (cases t) simp_all

lemma other_events_keep_active:
  assumes "\<forall>i. ev \<noteq> FavoriteClick i"
  shows "favorites (world_of (dispatch p ev w)) = favorites w"
    and "(''active'' \<in> classList (dom (world_of (dispatch p ev w)) n))
          = (''active'' \<in> classList (dom w n))"
    and "localStorage (world_of (dispatch p ev w)) favorites_key = localStorage w favorites_key"
  using assms keys_differ
  by (cases ev; auto simp: dispatch_def page_defs theme_defs Let_def observer_callback_dom
        split: option.splits query_result.splits)+

lemma dispatch_consistent:
  assumes "distinct (favorite_btns p)"
    and "favorites_consistent p w \<and> favorites_stored w"
  shows "favorites_consistent p (world_of (dispatch p ev w))
       \<and> favorites_stored (world_of (dispatch p ev w))"
proof (cases "\<exists>i. ev = FavoriteClick i")
  case True
  then obtain i where ev: "ev = FavoriteClick i" by blast
  show ?thesis
  proof (cases "delivered p ev w")
    case True
    with assms ev toggleFavorite_consistent [of p i w] toggleFavorite_stored [of _ i w]
    show ?thesis
      by (simp add: dispatch_def favorites_stored_def)
  next
    case False
    with assms ev show ?thesis by (auto simp: dispatch_def)
  qed
next
  case False
  with assms other_events_keep_active [of ev p w] show ?thesis
    by (auto simp: favorites_consistent_iff favorites_stored_def split: option.splits)
qed

lemma run_consistent:
  assumes "distinct (favorite_btns p)"
  shows "favorites_consistent p w \<and> favorites_stored w \<Longrightarrow>
         favorites_consistent p (run p evs w) \<and> favorites_stored (run p evs w)"
proof (induction evs arbitrary: w)
  case Nil
  then show ?case by simp
next
  case (Cons ev evs)
  from dispatch_consistent [OF assms Cons.prems]
  show ?case by (simp add: Cons.IH)
qed

lemma load_consistent:
  assumes "localStorage w favorites_key = None"
    and "\<forall>b \<in> set (favorite_btns p). ''active'' \<notin> classList (dom w b)"
  shows "favorites_consistent p (world_of (DOMContentLoaded p w))
       \<and> favorites_stored (world_of (DOMContentLoaded p w))"
proof -
  let ?t = "ThemeManager p w"
  have key: "localStorage ?t favorites_key = None"
    using assms(1) keys_differ theme_ops_other_keys(3) [of favorites_key p w] by simp
  have cls: "classList (dom ?t n) = classList (dom w n)" for n
    using theme_ops_keep_favorites(3) [of p w n] by (simp add: favorite_state_def)
  have fm: "FavoriteManager p ?t = Returned (restore_buttons (favorite_btns p) 0 (?t\<lparr>favorites := []\<rparr>))"
    using key by (simp add: favorite_defs)
  let ?f = "restore_buttons (favorite_btns p) 0 (?t\<lparr>favorites := []\<rparr>)"
  have "dom ?f = dom ?t" by (simp add: restore_buttons_none)
  then have "favorites_consistent p ?f \<and> favorites_stored ?f"
    using assms(2) key cls by (simp add: favorites_consistent_iff favorites_stored_def)
  then show ?thesis
    using key
    by (simp add: DOMContentLoaded_def fm page_defs favorites_consistent_iff favorites_stored_def)
qed

text \<open>
  C2. On a page whose favorite buttons are not active in the markup, and with nothing
  stored under the favorites key, the page load followed by any events leaves the
  array without repetition and holding the index of a button exactly when that button
  is active; the stored text is that of the array, and reading it back gives the array.
  Every \<^verbatim>\<open>toggleFavorite\<close> ends by storing the text of the array. The list of the
  buttons names each of them once, as the node list of \<^verbatim>\<open>querySelectorAll\<close> does.
\<close>

theorem favorites_track_active:
  "(distinct (favorite_btns p) \<and> localStorage w favorites_key = None
      \<and> (\<forall>b \<in> set (favorite_btns p). ''active'' \<notin> classList (dom w b)) \<longrightarrow>
      favorites_consistent p (run p evs (world_of (DOMContentLoaded p w)))
      \<and> favorites_stored (run p evs (world_of (DOMContentLoaded p w)))
      \<and> getStoredFavorites (run p evs (world_of (DOMContentLoaded p w)))
          = Inr (favorites (run p evs (world_of (DOMContentLoaded p w)))))
   \<and> localStorage (toggleFavorite b i w) favorites_key
       = Some (JSON_stringify (favorites (toggleFavorite b i w)))"
  using run_consistent [OF _ load_consistent, of p w evs]
  by (auto simp: toggleFavorite_stored favorites_stored_read)

theorem favorites_track_active_witness:
  "favorites_consistent shop
     (run shop [FavoriteClick 1, FavoriteClick 0, FavoriteClick 1]
        (world_of (DOMContentLoaded shop fresh)))
   \<and> getStoredFavorites
       (run shop [FavoriteClick 1, FavoriteClick 0, FavoriteClick 1]
          (world_of (DOMContentLoaded shop fresh))) = Inr [0]"
proof -
  have page: "distinct (favorite_btns shop)" "localStorage fresh favorites_key = None"
    "\<forall>b \<in> set (favorite_btns shop). ''active'' \<notin> classList (dom fresh b)"
    by (simp_all add: shop_def fresh_def blank_def)
  have array: "favorites (run shop [FavoriteClick 1, FavoriteClick 0, FavoriteClick 1]
      (world_of (DOMContentLoaded shop fresh))) = [0]"
    by (simp add: DOMContentLoaded_def dispatch_def favorite_defs page_defs theme_defs Let_def
        shop_def fresh_def blank_def theme_key_def favorites_key_def)
  show ?thesis
    using page array
      favorites_track_active [where p = shop and w = fresh
        and evs = "[FavoriteClick 1, FavoriteClick 0, FavoriteClick 1]"]
    by simp
qed

text \<open>
  A button that is active in the markup is not in the array: the construction adds
  classes for the stored indices and removes none.
\<close>

theorem active_markup_not_tracked:
  "localStorage marked favorites_key = None
   \<and> favorites (run shop [FavoriteClick 1] (world_of (DOMContentLoaded shop marked))) = [1]
   \<and> getStoredFavorites (run shop [FavoriteClick 1] (world_of (DOMContentLoaded shop marked)))
       = Inr [1]
   \<and> ''active'' \<in> classList (dom (run shop [FavoriteClick 1] (world_of (DOMContentLoaded shop marked)))
                                (favorite_btns shop ! 0))
   \<and> 0 \<notin> set (favorites (run shop [FavoriteClick 1] (world_of (DOMContentLoaded shop marked))))"
proof -
  have encoded: "JSON_stringify [Suc 0] = ''[1]''"
    by (simp add: JSON_stringify_def show_nat.simps digit_char_def)
  have parse: "JSON_parse ''[1]'' = Inr [Suc 0]"
    using JSON_roundtrip [of "[Suc 0]"] by (simp only: encoded)
  show ?thesis
    by (simp add: DOMContentLoaded_def dispatch_def favorite_defs page_defs theme_defs Let_def
        shop_def fresh_def marked_def blank_def theme_key_def favorites_key_def encoded parse)
qed

subsection \<open>Which effects are idempotent\<close>

lemma applyTheme_idem: "applyTheme p t (applyTheme p t w) = applyTheme p t w"
  by (simp add: theme_defs)

lemma observer_callback_idem:
  "observer_callback es (observer_callback es w) = observer_callback es w"
proof (rule world.equality)
  show "dom (observer_callback es (observer_callback es w)) = dom (observer_callback es w)"
    by (rule ext) (simp add: observer_callback_dom)
  show "observed (observer_callback es (observer_callback es w)) = observed (observer_callback es w)"
    by (auto simp: observer_callback_observed)
qed simp_all

lemma toggleFavorite_flips:
  "(''active'' \<in> classList (dom (toggleFavorite b i w) b)) = (''active'' \<notin> classList (dom w b))"
  by (simp add: favorite_defs Let_def)

text \<open>
  C4. Applying a theme and marking images loaded are idempotent: done twice with the
  same arguments they leave the state they leave when done once. The click on a
  favorite button is not: it flips the button's \<^verbatim>\<open>active\<close> class, so the second
  click never leaves the state of the first.
\<close>

theorem idempotent_effects:
  "applyTheme p t (applyTheme p t w) = applyTheme p t w
   \<and> observer_callback es (observer_callback es w) = observer_callback es w
   \<and> (''active'' \<in> classList (dom (toggleFavorite b i w) b)) = (''active'' \<notin> classList (dom w b))
   \<and> toggleFavorite b i (toggleFavorite b i w) \<noteq> toggleFavorite b i w"
proof -
  have "toggleFavorite b i (toggleFavorite b i w) \<noteq> toggleFavorite b i w"
  proof
    assume "toggleFavorite b i (toggleFavorite b i w) = toggleFavorite b i w"
    then have "(''active'' \<in> classList (dom (toggleFavorite b i (toggleFavorite b i w)) b))
        = (''active'' \<in> classList (dom (toggleFavorite b i w) b))"
      by simp
    then show False
      using toggleFavorite_flips [of b i "toggleFavorite b i w"] by simp
  qed
  then show ?thesis
    by (simp add: applyTheme_idem observer_callback_idem toggleFavorite_flips)
qed

theorem idempotent_effects_witness:
  "applyTheme shop ''dark'' (applyTheme shop ''dark'' fresh) = applyTheme shop ''dark'' fresh
   \<and> observer_callback [(50, True)] (observer_callback [(50, True)] fresh)
       = observer_callback [(50, True)] fresh
   \<and> ''active'' \<in> classList (dom (toggleFavorite 10 0 fresh) 10)"
  using idempotent_effects [of shop "''dark''" fresh "[(50, True)]" 10 0]
  by (simp add: fresh_def blank_def)

text \<open>Two clicks on a favorite button are not one click.\<close>

theorem favorite_click_not_idempotent:
  "''active'' \<in> classList (dom (toggleFavorite 10 0 fresh) 10)
   \<and> localStorage (toggleFavorite 10 0 fresh) favorites_key = Some ''[0]''
   \<and> ''active'' \<notin> classList (dom (toggleFavorite 10 0 (toggleFavorite 10 0 fresh)) 10)
   \<and> localStorage (toggleFavorite 10 0 (toggleFavorite 10 0 fresh)) favorites_key = Some ''[]''
   \<and> toggleFavorite 10 0 (toggleFavorite 10 0 fresh) \<noteq> toggleFavorite 10 0 fresh"
proof -
  have state: "''active'' \<in> classList (dom (toggleFavorite 10 0 fresh) 10)"
    "localStorage (toggleFavorite 10 0 fresh) favorites_key = Some ''[0]''"
    "''active'' \<notin> classList (dom (toggleFavorite 10 0 (toggleFavorite 10 0 fresh)) 10)"
    "localStorage (toggleFavorite 10 0 (toggleFavorite 10 0 fresh)) favorites_key = Some ''[]''"
    by (simp_all add: favorite_defs Let_def fresh_def blank_def JSON_stringify_def
        show_nat.simps digit_char_def)
  then have "toggleFavorite 10 0 (toggleFavorite 10 0 fresh) \<noteq> toggleFavorite 10 0 fresh"
    by auto
  with state show ?thesis by simp
qed

subsection \<open>Queries that find nothing\<close>

lemma onCardClick_null:
  "product_name p c = None \<Longrightarrow> onCardClick p c w = Threw TypeError w"
  by (simp add: onCardClick_def)

text \<open>
  The checks that are there do their work: the listener of the theme toggle is added
  only when the button exists, so a click that reaches \<^verbatim>\<open>toggleTheme\<close> finds it.
\<close>

lemma load_theme_listener:
  "theme_listener (world_of (DOMContentLoaded p w)) = (theme_listener w \<or> themeToggle p \<noteq> None)"
proof -
  have "theme_listener (world_of (FavoriteManager p (ThemeManager p w)))
      = theme_listener (ThemeManager p w)"
    using favorite_ops_keep_theme(2) [of p "ThemeManager p w" 0] by (simp add: theme_state_def)
  then show ?thesis
    by (cases "FavoriteManager p (ThemeManager p w)")
       (auto simp: DOMContentLoaded_def page_defs theme_defs Let_def)
qed

lemma theme_toggle_click_returns:
  "\<not> theme_listener w \<Longrightarrow> \<not> threw (dispatch p ThemeToggleClick (world_of (DOMContentLoaded p w)))"
  by (auto simp: dispatch_def load_theme_listener toggleTheme_def Let_def)

text \<open>
  C5. The second card of the shop page has no name element. After the page load a click
  on it reaches \<^verbatim>\<open>onCardClick\<close>, which dereferences the missing element: the
  listener throws a \<^verbatim>\<open>TypeError\<close>.
\<close>

theorem card_without_name_throws:
  "product_name shop (product_cards shop ! 1) = None
   \<and> delivered shop (CardClick 1 False) (world_of (DOMContentLoaded shop fresh))
   \<and> dispatch shop (CardClick 1 False) (world_of (DOMContentLoaded shop fresh))
       = Threw TypeError (world_of (DOMContentLoaded shop fresh))"
proof -
  have none: "product_name shop (product_cards shop ! 1) = None"
    by (simp add: shop_def)
  have listening: "delivered shop (CardClick 1 False) (world_of (DOMContentLoaded shop fresh))"
    by (simp add: DOMContentLoaded_def favorite_defs page_defs theme_defs Let_def
        shop_def fresh_def theme_key_def favorites_key_def)
  show ?thesis
    using none listening
    by (simp add: dispatch_def card_click_def onCardClick_null del: delivered.simps)
qed

subsection \<open>SmoothScroll\<close>

text \<open>
  The listener of an anchor prevents the default navigation before anything else,
  whatever the query answers. When the query finds an element, that element is scrolled
  into view, smoothly and aligned to its start, and nothing else changes; when it finds
  none, the listener returns with the state as it was. When the query rejects the text
  of the \<^verbatim>\<open>href\<close> as a selector, the listener throws. Every anchor the page has gets
  the listener, and a click on it does not navigate.
\<close>

lemma anchor_click_cases:
  "fst (anchor_click p a w) = True
   \<and> (case querySelector p (href (dom w a)) of
        Found target \<Rightarrow>
          snd (anchor_click p a w)
            = Returned (w\<lparr>scrolled := scrolled w @ [(target, ''smooth'', ''start'')]\<rparr>)
      | NoElement \<Rightarrow> snd (anchor_click p a w) = Returned w
      | InvalidSelector \<Rightarrow> snd (anchor_click p a w) = Threw SyntaxError w)
   \<and> (i < length (anchors p) \<longrightarrow>
        delivered p (AnchorClick i) (SmoothScroll p w')
        \<and> dispatch p (AnchorClick i) (SmoothScroll p w')
            = snd (anchor_click p (anchors p ! i) (SmoothScroll p w'))
        \<and> location_hash (world_of (dispatch p (AnchorClick i) (SmoothScroll p w')))
            = location_hash w')"
  by (auto simp: anchor_click_def dispatch_def SmoothScroll_def split: query_result.splits)

lemma anchor_click_on_shop:
  "scrolled (world_of (dispatch shop (AnchorClick 0) (SmoothScroll shop fresh)))
     = [(60, ''smooth'', ''start'')]
   \<and> dispatch shop (AnchorClick 1) (SmoothScroll shop fresh) = Returned (SmoothScroll shop fresh)
   \<and> location_hash (world_of (dispatch shop (AnchorClick 0) (SmoothScroll shop fresh))) = []"
proof -
  have page: "length (anchors shop) = 2" "anchors shop ! 0 = 40" "anchors shop ! 1 = 41"
    "querySelector shop (href (dom (SmoothScroll shop fresh) 40)) = Found 60"
    "querySelector shop (href (dom (SmoothScroll shop fresh) 41)) = NoElement"
    "scrolled (SmoothScroll shop fresh) = []" "location_hash fresh = []"
    "location_hash (SmoothScroll shop fresh) = []"
    by (simp_all add: shop_def fresh_def blank_def SmoothScroll_def)
  show ?thesis
    using page
      anchor_click_cases [where p = shop and a = 40 and w = "SmoothScroll shop fresh"
        and i = 0 and w' = fresh]
      anchor_click_cases [where p = shop and a = 41 and w = "SmoothScroll shop fresh"
        and i = 1 and w' = fresh]
    by simp
qed

text \<open>
  C6. On the page with the link back to the top, the click on the anchor is received by
  the listener, which prevents the default navigation and then asks for the element
  matching \<^verbatim>\<open>#\<close>. No element matches, but the listener does not simply return: the
  query throws, and the click ends in an uncaught \<^verbatim>\<open>SyntaxError\<close>.
\<close>

theorem anchor_to_top_throws:
  "href (dom (world_of (DOMContentLoaded top_link top_link_state)) (anchors top_link ! 0)) = ''#''
   \<and> querySelector top_link ''#'' = InvalidSelector
   \<and> delivered top_link (AnchorClick 0) (world_of (DOMContentLoaded top_link top_link_state))
   \<and> fst (anchor_click top_link (anchors top_link ! 0)
             (world_of (DOMContentLoaded top_link top_link_state)))
   \<and> dispatch top_link (AnchorClick 0) (world_of (DOMContentLoaded top_link top_link_state))
       = Threw SyntaxError (world_of (DOMContentLoaded top_link top_link_state))"
proof -
  let ?w = "world_of (DOMContentLoaded top_link top_link_state)"
  have link: "anchors top_link ! 0 = 42" "querySelector top_link ''#'' = InvalidSelector"
    by (simp_all add: top_link_def shop_def)
  have loaded: "href (dom ?w 42) = ''#''" "anchor_listeners ?w"
    by (simp_all add: DOMContentLoaded_def favorite_defs page_defs theme_defs Let_def
        top_link_def top_link_state_def shop_def fresh_def blank_def
        theme_key_def favorites_key_def)
  have listening: "delivered top_link (AnchorClick 0) ?w"
    using loaded(2) by (simp add: top_link_def)
  have click: "anchor_click top_link 42 ?w = (True, Threw SyntaxError ?w)"
    using link(2) loaded(1) by (simp add: anchor_click_def)
  show ?thesis
    using link loaded(1) listening click
    by (simp add: dispatch_def del: delivered.simps)
qed

end
